theory Spec2Isabelle
  imports Complex_Main
begin

section \<open>Data model\<close>

text \<open>
  Modelled from the spec: the \<open>Channel\<close> type is imported from \<open>@/lib/channels\<close>, which
  is not among the sources. The spec's data model gives it an identifier, a display name, a
  playback URL and an optional DRM key string encoded as \<open>keyId:key\<close>.
\<close>

record channel =
  channel_id :: string
  channel_name :: string
  url :: string
  drmKey :: "string option"

text \<open>
  The engine (\<open>window.shaka\<close>) is external. An engine instance is identified by the order of
  its construction: the \<open>n\<close>-th \<open>new shaka.Player(...)\<close> is instance \<open>n\<close>. All instances
  are constructed on the one video element of the component.
\<close>

type_synonym engine_id = nat

record retry_parameters =
  maxAttempts :: nat
  baseDelay :: nat
  backoffFactor :: nat
  timeout :: "nat option"

record abr_config =
  enabled :: bool
  defaultBandwidthEstimate :: nat
  switchInterval :: nat
  bandwidthUpgradeTarget :: real
  bandwidthDowngradeTarget :: real

record streaming_config =
  bufferingGoal :: nat
  rebufferingGoal :: nat
  streaming_retryParameters :: retry_parameters

text \<open>
  The two shapes of object handed to \<open>player.configure\<close>. In \<open>DrmConfig\<close> the first
  argument is the \<open>clearKeys\<close> object as a list of (property name, value) pairs; a value
  \<open>None\<close> is JavaScript's \<open>undefined\<close>.
\<close>

datatype config =
    PlayerConfig abr_config streaming_config
  | DrmConfig "(string \<times> string option) list" retry_parameters

datatype engine_call =
    InstallAll
  | IsBrowserSupported
  | NewPlayer engine_id
  | Configure engine_id config
  | AddEventListener engine_id string
  | Load engine_id string
  | Destroy engine_id

text \<open>
  A thrown value: either \<open>new Error(msg)\<close> raised by the component itself, or whatever the
  engine throws (or rejects with) in the given call.
\<close>

datatype js_error =
    Error string
  | EngineError engine_call

text \<open>Everything observable from outside, in program order: engine calls and console lines.\<close>

datatype event =
    Call engine_call
  | ConsoleLog "string list"
  | ConsoleError string js_error

text \<open>The \<open>video\<close> element, as far as the component touches it.\<close>

record video =
  el_volume :: real
  el_paused :: bool

text \<open>
  The component's refs and state hooks (lines 13 to 19), the trace of events, and the number
  of engine instances constructed so far.
\<close>

record pstate =
  videoRef :: "video option"
  shakaPlayerRef :: "engine_id option"
  isPlaying :: bool
  volume :: real
  showControls :: bool
  isMuted :: bool
  trace :: "event list"
  constructed :: nat

text \<open>
  What the environment does: whether \<open>window.shaka\<close> is defined, what
  \<open>isBrowserSupported()\<close> answers, and whether an engine call made after a given history
  throws (for an asynchronous call: whether its promise rejects).
\<close>

record env =
  shaka_loaded :: bool
  browser_supported :: bool
  throws :: "event list \<Rightarrow> engine_call \<Rightarrow> bool"

section \<open>Asynchronous computations\<close>

text \<open>
  An \<open>async\<close> function runs until it finishes (with a value or a thrown error) or reaches
  an \<open>await\<close>, where it hands back the state and a continuation. The continuation is applied
  to the state as it is when the function is resumed, which other tasks may have changed in
  between.
\<close>

datatype 'a step =
    Done "js_error + 'a" pstate
  | Yield pstate "pstate \<Rightarrow> 'a step"

type_synonym 'a comp = "pstate \<Rightarrow> 'a step"

definition return_comp :: "'a \<Rightarrow> 'a comp" where
  "return_comp x = (\<lambda>s. Done (Inr x) s)"

definition throw_comp :: "js_error \<Rightarrow> 'a comp" where
  "throw_comp e = (\<lambda>s. Done (Inl e) s)"

primrec bind_step :: "'a step \<Rightarrow> ('a \<Rightarrow> 'b comp) \<Rightarrow> 'b step" where
  "bind_step (Done r s) f = (case r of Inl e \<Rightarrow> Done (Inl e) s | Inr a \<Rightarrow> f a s)"
| "bind_step (Yield s k) f = Yield s (\<lambda>s'. bind_step (k s') f)"

definition bind_comp :: "'a comp \<Rightarrow> ('a \<Rightarrow> 'b comp) \<Rightarrow> 'b comp" where
  "bind_comp m f = (\<lambda>s. bind_step (m s) f)"

definition seq_comp :: "unit comp \<Rightarrow> 'b comp \<Rightarrow> 'b comp" where
  "seq_comp m n = bind_comp m (\<lambda>_. n)"

text \<open>\<open>try { m } catch (e) { h e }\<close>, also across the awaits inside \<open>m\<close>.\<close>

primrec catch_step :: "'a step \<Rightarrow> (js_error \<Rightarrow> 'a comp) \<Rightarrow> 'a step" where
  "catch_step (Done r s) h = (case r of Inl e \<Rightarrow> h e s | Inr a \<Rightarrow> Done (Inr a) s)"
| "catch_step (Yield s k) h = Yield s (\<lambda>s'. catch_step (k s') h)"

definition try_catch :: "'a comp \<Rightarrow> (js_error \<Rightarrow> 'a comp) \<Rightarrow> 'a comp" where
  "try_catch m h = (\<lambda>s. catch_step (m s) h)"

text \<open>
  \<open>await m\<close>: \<open>m\<close> is started at once and runs to its own first \<open>await\<close>; the awaiting
  function is resumed, with the value or the error of \<open>m\<close>, no earlier than one turn of the
  job queue after \<open>m\<close> has settled.
\<close>

primrec settle :: "'a step \<Rightarrow> 'a step" where
  "settle (Done r s) = Yield s (\<lambda>s'. Done r s')"
| "settle (Yield s k) = Yield s (\<lambda>s'. settle (k s'))"

definition await :: "'a comp \<Rightarrow> 'a comp" where
  "await m = (\<lambda>s. settle (m s))"

text \<open>
  Running one asynchronous function alone: every \<open>await\<close> is resumed at once, on the state as
  the function left it.
\<close>

primrec run_alone :: "'a step \<Rightarrow> (js_error + 'a) \<times> pstate" where
  "run_alone (Done r s) = (r, s)"
| "run_alone (Yield s k) = run_alone (k s)"

text \<open>
  A function that is not run alone: the state it hands back at its first \<open>await\<close>, and
  what it does when it is resumed there in a state \<open>s'\<close>, which need not be the state it
  handed back.
\<close>

primrec suspended_in :: "'a step \<Rightarrow> pstate option" where
  "suspended_in (Done r s) = None"
| "suspended_in (Yield s k) = Some s"

primrec resumed :: "'a step \<Rightarrow> pstate \<Rightarrow> 'a step" where
  "resumed (Done r s) s' = Done r s"
| "resumed (Yield s k) s' = k s'"

text \<open>No thrown error comes out of a computation, in whatever states it is resumed.\<close>

primrec never_throws :: "'a step \<Rightarrow> bool" where
  "never_throws (Done r s) = (case r of Inl e \<Rightarrow> False | Inr a \<Rightarrow> True)"
| "never_throws (Yield s k) = (\<forall>s'. never_throws (k s'))"

section \<open>Primitive operations\<close>

definition emit :: "event \<Rightarrow> unit comp" where
  "emit ev = (\<lambda>s. Done (Inr ()) (s\<lparr>trace := trace s @ [ev]\<rparr>))"

definition console_log :: "string list \<Rightarrow> unit comp" where
  "console_log args = emit (ConsoleLog args)"

definition console_error :: "string \<Rightarrow> js_error \<Rightarrow> unit comp" where
  "console_error msg e = emit (ConsoleError msg e)"

text \<open>A call into the engine: recorded, and thrown out of if the environment says so.\<close>

definition engine :: "env \<Rightarrow> engine_call \<Rightarrow> unit comp" where
  "engine E c = (\<lambda>s.
     Done (if throws E (trace s) c then Inl (EngineError c) else Inr ())
          (s\<lparr>trace := trace s @ [Call c]\<rparr>))"

definition set_shakaPlayerRef :: "engine_id option \<Rightarrow> unit comp" where
  "set_shakaPlayerRef r = (\<lambda>s. Done (Inr ()) (s\<lparr>shakaPlayerRef := r\<rparr>))"

section \<open>The player lifecycle (VideoPlayer.tsx)\<close>

text \<open>\<open>destroyPlayer\<close>, lines 33 to 42.\<close>

definition destroyPlayer :: "env \<Rightarrow> unit comp" where
  "destroyPlayer E = (\<lambda>s.
     case shakaPlayerRef s of
       Some p \<Rightarrow>
         try_catch
           (seq_comp (await (engine E (Destroy p)))
                     (set_shakaPlayerRef None))
           (\<lambda>error. console_error ''Error destroying player:'' error) s
     | None \<Rightarrow> return_comp () s)"

text \<open>The fixed configuration of lines 62 to 80, and the retry parameters of lines 94 to 98.\<close>

definition player_config :: config where
  "player_config =
     PlayerConfig
       \<lparr>enabled = True, defaultBandwidthEstimate = 1000000, switchInterval = 1,
        bandwidthUpgradeTarget = 0.85, bandwidthDowngradeTarget = 0.95\<rparr>
       \<lparr>bufferingGoal = 10, rebufferingGoal = 2,
        streaming_retryParameters =
          \<lparr>maxAttempts = 5, baseDelay = 1000, backoffFactor = 2, timeout = Some 30000\<rparr>\<rparr>"

definition drm_retryParameters :: retry_parameters where
  "drm_retryParameters =
     \<lparr>maxAttempts = 5, baseDelay = 1000, backoffFactor = 2, timeout = None\<rparr>"

text \<open>
  \<open>str.split(':')\<close>: the pieces between the colons, all of them. The result is never empty:
  the empty string splits into one empty piece.
\<close>

fun split_colon :: "string \<Rightarrow> string list" where
  "split_colon [] = [[]]"
| "split_colon (c # cs) =
     (if c = CHR '':'' then [] # split_colon cs
      else (case split_colon cs of
              p # ps \<Rightarrow> (c # p) # ps
            | [] \<Rightarrow> [[c]]))"

text \<open>
  \<open>const [keyId, key] = parts\<close> and the object \<open>{[keyId]: key}\<close>: a missing element is
  \<open>undefined\<close>, which as a property name reads \<open>"undefined"\<close>.
\<close>

definition clearKeys :: "string list \<Rightarrow> (string \<times> string option) list" where
  "clearKeys parts =
     [(case parts of [] \<Rightarrow> ''undefined'' | keyId # _ \<Rightarrow> keyId,
       case parts of _ # key # _ \<Rightarrow> Some key | _ \<Rightarrow> None)]"

text \<open>
  \<open>new shaka.Player(videoRef.current)\<close>, line 58: the new instance is numbered by the count
  of instances constructed before it.
\<close>

definition new_Player :: "env \<Rightarrow> engine_id comp" where
  "new_Player E = (\<lambda>s.
     bind_comp (engine E (NewPlayer (constructed s)))
       (\<lambda>_ s'. Done (Inr (constructed s)) (s'\<lparr>constructed := Suc (constructed s)\<rparr>)) s)"

text \<open>
  The DRM block of \<open>initPlayer\<close>, lines 86 to 101, which the specification calls Apply
  DRM. \<open>if (channel.drmKey)\<close> is false for a missing key and for the empty string.
\<close>

definition applyDrm :: "env \<Rightarrow> channel \<Rightarrow> engine_id \<Rightarrow> unit comp" where
  "applyDrm E ch player =
     (case drmKey ch of
        None \<Rightarrow> return_comp ()
      | Some k \<Rightarrow>
          if k = [] then return_comp ()
          else seq_comp (console_log [''Configuring DRM with key:'', k])
                 (await (engine E
                    (Configure player (DrmConfig (clearKeys (split_colon k)) drm_retryParameters)))))"

text \<open>\<open>videoRef.current.play()\<close> and \<open>pause()\<close>.\<close>

definition play :: "video \<Rightarrow> video" where
  "play v = v\<lparr>el_paused := False\<rparr>"

definition pause :: "video \<Rightarrow> video" where
  "pause v = v\<lparr>el_paused := True\<rparr>"

text \<open>
  The load block of \<open>initPlayer\<close>, lines 103 to 113, which the specification calls Load.
  The promise that \<open>play()\<close> returns is dropped by the source.
\<close>

definition loadChannel :: "env \<Rightarrow> channel \<Rightarrow> engine_id \<Rightarrow> unit comp" where
  "loadChannel E ch player =
     seq_comp (console_log [''Loading URL:'', url ch])
       (try_catch
          (seq_comp (await (engine E (Load player (url ch))))
          (seq_comp (console_log [''Video loaded successfully''])
             (\<lambda>s. case videoRef s of
                     Some v \<Rightarrow> Done (Inr ()) (s\<lparr>videoRef := Some (play v), isPlaying := True\<rparr>)
                   | None \<Rightarrow> Done (Inr ()) s)))
          (\<lambda>error. console_error ''Error loading video:'' error))"

text \<open>
  \<open>initPlayer\<close>, lines 44 to 117. The listener registered at line 82 only writes to the
  console when the engine reports an error later; its registration is recorded.
\<close>

definition initPlayer :: "env \<Rightarrow> channel \<Rightarrow> unit comp" where
  "initPlayer E ch =
     try_catch
       (\<lambda>s. if videoRef s = None \<or> \<not> shaka_loaded E then return_comp () s
            else
              seq_comp (engine E InstallAll)
             (seq_comp (engine E IsBrowserSupported)
             (if \<not> browser_supported E then throw_comp (Error ''Browser not supported!'')
              else
                seq_comp (await (destroyPlayer E))
               (bind_comp (new_Player E) (\<lambda>player.
                seq_comp (set_shakaPlayerRef (Some player))
               (seq_comp (engine E (Configure player player_config))
               (seq_comp (engine E (AddEventListener player ''error''))
               (seq_comp (applyDrm E ch player)
                         (loadChannel E ch player)))))))) s)
       (\<lambda>error. console_error ''Error initializing player:'' error)"

text \<open>\<open>initNewChannel\<close>, lines 127 to 130.\<close>

definition initNewChannel :: "env \<Rightarrow> channel \<Rightarrow> unit comp" where
  "initNewChannel E ch = seq_comp (await (destroyPlayer E)) (await (initPlayer E ch))"

section \<open>Volume, mute and play (VideoPlayer.tsx)\<close>

text \<open>The initial values of the hooks, lines 13 to 19, for a given content of \<open>videoRef\<close>.\<close>

definition init_state :: "video option \<Rightarrow> pstate" where
  "init_state v =
     \<lparr>videoRef = v, shakaPlayerRef = None, isPlaying = True, volume = 1,
      showControls = False, isMuted = False, trace = [], constructed = 0\<rparr>"

text \<open>
  The effect on \<open>[volume]\<close>, lines 119 to 124. The volume comes from the slider, which
  runs from 0 to 100 (line 198), or from \<open>toggleMute\<close>, so the value assigned to the
  element is within the range from 0 to 1 that the element accepts.
\<close>

definition volume_effect :: "pstate \<Rightarrow> pstate" where
  "volume_effect s =
     (case videoRef s of
        Some v \<Rightarrow> s\<lparr>videoRef := Some (v\<lparr>el_volume := volume s\<rparr>), isMuted := (volume s = 0)\<rparr>
      | None \<Rightarrow> s)"

text \<open>
  After a handler has run, the component is rendered with the new state, and the effect on
  \<open>[volume]\<close> runs if \<open>volume\<close> differs from its value at the previous render.
\<close>

definition rerender :: "pstate \<Rightarrow> pstate \<Rightarrow> pstate" where
  "rerender prev s = (if volume s \<noteq> volume prev then volume_effect s else s)"

text \<open>
  The slider's \<open>onValueChange\<close>, line 201; \<open>x\<close> is \<open>value[0]\<close>. The slider has
  \<open>max={100}\<close> and \<open>step={1}\<close> (lines 198 and 199), so it emits whole numbers.
\<close>

definition onValueChange :: "nat \<Rightarrow> pstate \<Rightarrow> pstate" where
  "onValueChange x s = rerender s (s\<lparr>volume := real x / 100\<rparr>)"

text \<open>\<open>togglePlay\<close>, lines 139 to 147.\<close>

definition togglePlay :: "pstate \<Rightarrow> pstate" where
  "togglePlay s =
     (case videoRef s of
        None \<Rightarrow> s
      | Some v \<Rightarrow>
          rerender s
            (s\<lparr>videoRef := Some (if isPlaying s then pause v else play v),
               isPlaying := \<not> isPlaying s\<rparr>))"

text \<open>\<open>toggleMute\<close>, lines 149 to 159.\<close>

definition toggleMute :: "pstate \<Rightarrow> pstate" where
  "toggleMute s =
     (case videoRef s of
        None \<Rightarrow> s
      | Some v \<Rightarrow>
          rerender s
            (if isMuted s
             then s\<lparr>volume := 1, videoRef := Some (v\<lparr>el_volume := 1\<rparr>), isMuted := \<not> isMuted s\<rparr>
             else s\<lparr>volume := 0, videoRef := Some (v\<lparr>el_volume := 0\<rparr>), isMuted := \<not> isMuted s\<rparr>))"

section \<open>The component over time\<close>

text \<open>
  The mounted component: its state, the suspended asynchronous functions, and the channel of
  the first render, which the \<open>initPlayer\<close> given to \<open>script.onload\<close> (line 25) has closed
  over.
\<close>

record sys =
  cur :: pstate
  tasks :: "(pstate \<Rightarrow> unit step) list"
  script_channel :: channel

text \<open>
  Calling an asynchronous function without awaiting it: it runs to its first \<open>await\<close>, and
  what is left of it waits among the tasks.
\<close>

definition spawn :: "unit comp \<Rightarrow> sys \<Rightarrow> sys" where
  "spawn m \<sigma> =
     (case m (cur \<sigma>) of
        Done r s' \<Rightarrow> \<sigma>\<lparr>cur := s'\<rparr>
      | Yield s' k \<Rightarrow> \<sigma>\<lparr>cur := s', tasks := tasks \<sigma> @ [k]\<rparr>)"

text \<open>Resuming the \<open>i\<close>-th suspended task, up to its next \<open>await\<close>.\<close>

definition resume :: "nat \<Rightarrow> sys \<Rightarrow> sys" where
  "resume i \<sigma> =
     (if i < length (tasks \<sigma>)
      then (case (tasks \<sigma> ! i) (cur \<sigma>) of
              Done r s' \<Rightarrow> \<sigma>\<lparr>cur := s', tasks := take i (tasks \<sigma>) @ drop (Suc i) (tasks \<sigma>)\<rparr>
            | Yield s' k \<Rightarrow>
                \<sigma>\<lparr>cur := s', tasks := take i (tasks \<sigma>) @ drop (Suc i) (tasks \<sigma>) @ [k]\<rparr>)
      else \<sigma>)"

text \<open>
  Mounting runs the effects in the order of the source: the script element is added (lines
  21 to 31), the volume effect runs, and the channel effect calls \<open>initNewChannel\<close> (line
  132).
\<close>

definition mount :: "env \<Rightarrow> channel \<Rightarrow> video option \<Rightarrow> sys" where
  "mount E ch v =
     spawn (initNewChannel E ch)
       \<lparr>cur = volume_effect (init_state v), tasks = [], script_channel = ch\<rparr>"

text \<open>
  What can happen to the mounted component. A new \<open>channel\<close> prop runs the cleanup of the
  channel effect (line 135) and then the effect itself (line 132). Unmounting detaches
  \<open>videoRef\<close> and runs the cleanup. \<open>Resume i\<close> is the job queue resuming the \<open>i\<close>-th
  suspended function. The slider emits no value above its maximum of 100.
\<close>

datatype action =
    ChannelChange channel
  | ScriptLoaded
  | Unmount
  | Resume nat
  | TogglePlay
  | ToggleMute
  | SliderChange nat
  | MouseEnter
  | MouseLeave

fun react :: "env \<Rightarrow> sys \<Rightarrow> action \<Rightarrow> sys" where
  "react E \<sigma> (ChannelChange ch) = spawn (initNewChannel E ch) (spawn (destroyPlayer E) \<sigma>)"
| "react E \<sigma> ScriptLoaded = spawn (initPlayer E (script_channel \<sigma>)) \<sigma>"
| "react E \<sigma> Unmount = spawn (destroyPlayer E) (\<sigma>\<lparr>cur := (cur \<sigma>)\<lparr>videoRef := None\<rparr>\<rparr>)"
| "react E \<sigma> (Resume i) = resume i \<sigma>"
| "react E \<sigma> TogglePlay = \<sigma>\<lparr>cur := togglePlay (cur \<sigma>)\<rparr>"
| "react E \<sigma> ToggleMute = \<sigma>\<lparr>cur := toggleMute (cur \<sigma>)\<rparr>"
| "react E \<sigma> (SliderChange x) =
     (if x \<le> 100 then \<sigma>\<lparr>cur := onValueChange x (cur \<sigma>)\<rparr> else \<sigma>)"
| "react E \<sigma> MouseEnter = \<sigma>\<lparr>cur := (cur \<sigma>)\<lparr>showControls := True\<rparr>\<rparr>"
| "react E \<sigma> MouseLeave = \<sigma>\<lparr>cur := (cur \<sigma>)\<lparr>showControls := False\<rparr>\<rparr>"

definition run :: "env \<Rightarrow> sys \<Rightarrow> action list \<Rightarrow> sys" where
  "run E \<sigma> acts = foldl (react E) \<sigma> acts"

text \<open>
  An engine instance is live in a trace when it has been constructed and \<open>destroy\<close> has not
  been called on it.
\<close>

definition live :: "event list \<Rightarrow> engine_id \<Rightarrow> bool" where
  "live tr p \<longleftrightarrow> Call (NewPlayer p) \<in> set tr \<and> Call (Destroy p) \<notin> set tr"

section \<open>The controls overlay (ChannelControls.tsx)\<close>

text \<open>
  The props of lines 4 to 9. The three callbacks have type \<open>() => void\<close>; what they do is
  the parent's business, so their type is left open.
\<close>

record 'h ChannelControlsProps =
  onPrevious :: 'h
  onNext :: 'h
  onShowChannels :: 'h
  channelName :: string

text \<open>
  A rendered element: its tag, its string attributes, its \<open>onClick\<close> handler if it has
  one, and its children.
\<close>

datatype 'h vnode =
    Element string "(string \<times> string) list" "'h option" "'h vnode list"
  | TextNode string

definition icon_button :: "'h \<Rightarrow> 'h vnode \<Rightarrow> 'h vnode" where
  "icon_button h icon =
     Element ''Button''
       [(''variant'', ''ghost''), (''size'', ''icon''),
        (''className'', ''bg-black/60 hover:bg-black/80 text-white'')]
       (Some h) [icon]"

text \<open>\<open>ChannelControls\<close>, lines 11 to 54.\<close>

definition ChannelControls :: "'h ChannelControlsProps \<Rightarrow> 'h vnode" where
  "ChannelControls props =
     Element ''Fragment'' [] None
       [Element ''div''
          [(''className'',
            ''absolute top-4 right-4 z-40 flex items-center gap-2 bg-black/60 px-4 py-2 rounded-lg animate-fade-in'')]
          None
          [Element ''span'' [(''className'', ''text-white font-medium'')] None
             [TextNode (channelName props)]],
        Element ''div''
          [(''className'',
            ''absolute inset-x-0 top-1/2 -translate-y-1/2 z-40 flex justify-between px-4'')]
          None
          [icon_button (onPrevious props)
             (Element ''ChevronLeft'' [(''className'', ''h-8 w-8'')] None []),
           icon_button (onNext props)
             (Element ''ChevronRight'' [(''className'', ''h-8 w-8'')] None [])],
        Element ''div'' [(''className'', ''absolute bottom-4 right-4 z-40'')] None
          [icon_button (onShowChannels props)
             (Element ''List'' [(''className'', ''h-5 w-5'')] None [])]]"

text \<open>The handlers a rendered tree can dispatch, and the text it shows, in document order.\<close>

fun handlers :: "'h vnode \<Rightarrow> 'h list" where
  "handlers (Element tag attrs h children) =
     (case h of None \<Rightarrow> [] | Some x \<Rightarrow> [x]) @ concat (map handlers children)"
| "handlers (TextNode t) = []"

fun texts :: "'h vnode \<Rightarrow> string list" where
  "texts (Element tag attrs h children) = concat (map texts children)"
| "texts (TextNode t) = [t]"

text \<open>
  The callback set as the specification words it (section 4.2), to compare with what the
  component dispatches.
\<close>

definition spec_overlay_callbacks :: "string list" where
  "spec_overlay_callbacks =
     [''onPrevious'', ''onNext'', ''onShowChannels'',
      ''onTogglePlay'', ''onToggleMute'', ''onVolumeChange'']"

text \<open>Props in which every callback is its own name.\<close>

definition named_props :: "string \<Rightarrow> string ChannelControlsProps" where
  "named_props name =
     \<lparr>onPrevious = ''onPrevious'', onNext = ''onNext'',
      onShowChannels = ''onShowChannels'', channelName = name\<rparr>"

section \<open>Concrete environments and inputs\<close>

text \<open>An engine that is present, supports the browser and never throws.\<close>

definition cooperative :: env where
  "cooperative = \<lparr>shaka_loaded = True, browser_supported = True, throws = (\<lambda>tr c. False)\<rparr>"

text \<open>The same engine, except that every \<open>destroy()\<close> rejects.\<close>

definition destroy_rejects :: env where
  "destroy_rejects =
     \<lparr>shaka_loaded = True, browser_supported = True,
      throws = (\<lambda>tr c. case c of Destroy p \<Rightarrow> True | _ \<Rightarrow> False)\<rparr>"

text \<open>The same engine, except that every \<open>load()\<close> rejects.\<close>

definition load_rejects :: env where
  "load_rejects =
     \<lparr>shaka_loaded = True, browser_supported = True,
      throws = (\<lambda>tr c. case c of Load p u \<Rightarrow> True | _ \<Rightarrow> False)\<rparr>"

definition video0 :: video where
  "video0 = \<lparr>el_volume = 1, el_paused = True\<rparr>"

definition channel0 :: channel where
  "channel0 = \<lparr>channel_id = ''0'', channel_name = ''Zero'', url = ''https://example/0.mpd'',
                drmKey = None\<rparr>"

definition channelA :: channel where
  "channelA = \<lparr>channel_id = ''a'', channel_name = ''A'', url = ''https://example/a.mpd'',
                drmKey = None\<rparr>"

definition channelB :: channel where
  "channelB = \<lparr>channel_id = ''b'', channel_name = ''B'', url = ''https://example/b.mpd'',
                drmKey = None\<rparr>"

text \<open>The channel of the specification's scenario.\<close>

definition channel_k1v1 :: channel where
  "channel_k1v1 = \<lparr>channel_id = ''d'', channel_name = ''D'',
                    url = ''https://example/manifest.mpd'', drmKey = Some ''k1:v1''\<rparr>"

text \<open>A channel whose key has no colon.\<close>

definition channel_nocolon :: channel where
  "channel_nocolon = \<lparr>channel_id = ''n'', channel_name = ''N'',
                       url = ''https://example/n.mpd'', drmKey = Some ''abc123''\<rparr>"

text \<open>A channel whose key has a second colon.\<close>

definition channel_abc :: channel where
  "channel_abc = \<lparr>channel_id = ''c'', channel_name = ''C'',
                   url = ''https://example/c.mpd'', drmKey = Some ''a:b:c''\<rparr>"

text \<open>
  The key format as the specification words it (section 4.1), to compare with what the
  component hands to the engine: the string is split in two at its first colon, and a
  string with no colon has no such split.
\<close>

fun spec_split_first_colon :: "string \<Rightarrow> (string \<times> string) option" where
  "spec_split_first_colon [] = None"
| "spec_split_first_colon (c # cs) =
     (if c = CHR '':'' then Some ([], cs)
      else (case spec_split_first_colon cs of
              None \<Rightarrow> None
            | Some (keyId, key) \<Rightarrow> Some (c # keyId, key)))"

text \<open>A state in which engine instance 0 is the current session.\<close>

definition with_session :: pstate where
  "with_session =
     (init_state (Some video0))\<lparr>shakaPlayerRef := Some 0, trace := [Call (NewPlayer 0)],
                                  constructed := 1\<rparr>"

text \<open>
  The schedule of two quick channel changes: the component is mounted on channel 0 and its
  load finishes (four resumptions); the channel changes to A and, before any \<open>destroy()\<close>
  has settled, to B; then the suspended functions are resumed oldest first until none is
  left.
\<close>

definition quick_changes :: "action list" where
  "quick_changes =
     replicate 4 (Resume 0) @ [ChannelChange channelA, ChannelChange channelB]
       @ replicate 12 (Resume 0)"

definition after_quick_changes :: sys where
  "after_quick_changes = run cooperative (mount cooperative channel0 (Some video0)) quick_changes"

text \<open>The part of a trace that precedes the construction of instance \<open>p\<close>.\<close>

definition before_attach :: "event list \<Rightarrow> engine_id \<Rightarrow> event list" where
  "before_attach tr p = takeWhile (\<lambda>e. e \<noteq> Call (NewPlayer p)) tr"

text \<open>
  For comparison, two schedules without the overlap. One channel change left alone: mounted
  on channel 0, loaded, changed to A, and every suspended function resumed oldest first
  until none is left. And two changes of which the second comes late: the change to B
  arrives when instance 1 has been constructed for channel A and its load is pending.
\<close>

definition one_change :: "action list" where
  "one_change = replicate 4 (Resume 0) @ [ChannelChange channelA] @ replicate 6 (Resume 0)"

definition after_one_change :: sys where
  "after_one_change = run cooperative (mount cooperative channel0 (Some video0)) one_change"

definition late_changes :: "action list" where
  "late_changes =
     replicate 4 (Resume 0) @ [ChannelChange channelA] @ replicate 4 (Resume 0)
       @ [ChannelChange channelB] @ replicate 8 (Resume 0)"

definition after_late_changes :: sys where
  "after_late_changes = run cooperative (mount cooperative channel0 (Some video0)) late_changes"

text \<open>The state in which instance 0 waits for the load of channel A.\<close>

definition load_pending :: pstate where
  "load_pending =
     with_session\<lparr>trace := [Call (NewPlayer 0),
        ConsoleLog [''Loading URL:'', ''https://example/a.mpd''],
        Call (Load 0 ''https://example/a.mpd'')]\<rparr>"

text \<open>
  A load that resolves after the component has gone: mounted on channel 0, resumed twice so
  that the load of channel 0 is pending, paused by the user, unmounted, and then the load
  resolves.
\<close>

definition load_after_unmount :: "action list" where
  "load_after_unmount = [Resume 0, Resume 0, TogglePlay, Unmount, Resume 0]"

definition after_load_after_unmount :: sys where
  "after_load_after_unmount =
     run cooperative (mount cooperative channel0 (Some video0)) load_after_unmount"

section \<open>What the lifecycle leaves alone\<close>

text \<open>
  Two states agree on the volume, on the muted flag and on whether a video surface is
  bound.
\<close>

definition same_ui :: "pstate \<Rightarrow> pstate \<Rightarrow> bool" where
  "same_ui s s' \<longleftrightarrow>
     volume s' = volume s \<and> isMuted s' = isMuted s
     \<and> (videoRef s' = None \<longleftrightarrow> videoRef s = None)"

text \<open>
  A computation started in \<open>s\<close> agrees with \<open>s\<close> wherever it stops, and from every state
  in which it is resumed it does so again.
\<close>

primrec frames :: "'a step \<Rightarrow> pstate \<Rightarrow> bool" where
  "frames (Done r s') s = same_ui s s'"
| "frames (Yield s' k) s = (same_ui s s' \<and> (\<forall>s1. frames (k s1) s1))"

text \<open>With a video surface bound, the muted flag says that the volume is zero.\<close>

definition in_sync :: "pstate \<Rightarrow> bool" where
  "in_sync s \<longleftrightarrow> (videoRef s \<noteq> None \<longrightarrow> (isMuted s \<longleftrightarrow> volume s = 0))"

definition sys_ok :: "sys \<Rightarrow> bool" where
  "sys_ok \<sigma> \<longleftrightarrow> in_sync (cur \<sigma>) \<and> (\<forall>k \<in> set (tasks \<sigma>). \<forall>s. frames (k s) s)"

section \<open>Laws of the combinators\<close>

lemma run_alone_bind_step:
  "run_alone (bind_step st f) =
     (case run_alone st of (Inl e, s) \<Rightarrow> (Inl e, s) | (Inr a, s) \<Rightarrow> run_alone (f a s))"
  by (induction st) (auto split: sum.splits)

lemma run_alone_catch_step:
  "run_alone (catch_step st h) =
     (case run_alone st of (Inl e, s) \<Rightarrow> run_alone (h e s) | (Inr a, s) \<Rightarrow> (Inr a, s))"
  by (induction st) (auto split: sum.splits)

lemma run_alone_settle: "run_alone (settle st) = run_alone st"
  by (induction st) auto

lemmas run_alone_simps =
  run_alone_bind_step run_alone_catch_step run_alone_settle
  bind_comp_def seq_comp_def try_catch_def await_def return_comp_def throw_comp_def
  emit_def console_log_def console_error_def engine_def set_shakaPlayerRef_def

lemmas exec_simps =
  run_def mount_def spawn_def resume_def initNewChannel_def initPlayer_def destroyPlayer_def
  new_Player_def applyDrm_def loadChannel_def bind_comp_def seq_comp_def try_catch_def await_def
  return_comp_def throw_comp_def emit_def console_log_def console_error_def engine_def
  set_shakaPlayerRef_def volume_effect_def init_state_def cooperative_def
  channel0_def channelA_def channelB_def video0_def play_def

section \<open>Destroy\<close>

text \<open>What \<open>destroyPlayer\<close> does to a session, run to its end.\<close>

lemma destroyPlayer_run:
  "shakaPlayerRef s = Some p \<Longrightarrow>
   run_alone (destroyPlayer E s) =
     (Inr (),
      if throws E (trace s) (Destroy p)
      then s\<lparr>trace := trace s @ [Call (Destroy p),
                 ConsoleError ''Error destroying player:'' (EngineError (Destroy p))]\<rparr>
      else s\<lparr>trace := trace s @ [Call (Destroy p)], shakaPlayerRef := None\<rparr>)"
  by (simp add: destroyPlayer_def run_alone_simps)

lemma destroyPlayer_idle:
  "shakaPlayerRef s = None \<Longrightarrow> run_alone (destroyPlayer E s) = (Inr (), s)"
  by (simp add: destroyPlayer_def return_comp_def)

text \<open>
  C8. Calling \<open>destroyPlayer\<close> while the session reference is null does nothing: it returns
  normally and the state is the one it was called on.
\<close>

theorem destroyPlayer_no_session:
  "shakaPlayerRef s = None \<Longrightarrow> run_alone (destroyPlayer E s) = (Inr (), s)"
  by (simp add: destroyPlayer_def return_comp_def)

theorem destroyPlayer_no_session_witness:
  "shakaPlayerRef (init_state None) = None \<and>
   run_alone (destroyPlayer cooperative (init_state None)) = (Inr (), init_state None)"
  using destroyPlayer_no_session [of "init_state None" cooperative]
  by (simp add: init_state_def)

text \<open>
  C1. With engine instance 0 as the session and an engine whose \<open>destroy()\<close> rejects,
  \<open>destroyPlayer\<close> returns normally and logs the error, but the session reference still
  holds instance 0 afterwards: the assignment of line 37 is skipped.
\<close>

theorem destroyPlayer_rejected_keeps_session:
  "run_alone (destroyPlayer destroy_rejects with_session) =
     (Inr (),
      with_session\<lparr>trace := [Call (NewPlayer 0), Call (Destroy 0),
          ConsoleError ''Error destroying player:'' (EngineError (Destroy 0))]\<rparr>)
   \<and> shakaPlayerRef (snd (run_alone (destroyPlayer destroy_rejects with_session))) = Some 0"
  by (simp add: destroyPlayer_def run_alone_simps with_session_def init_state_def
        destroy_rejects_def)

section \<open>DRM keys\<close>

lemma split_colon_no_colon: "CHR '':'' \<notin> set k \<Longrightarrow> split_colon k = [k]"
  by (induction k) auto

lemma split_colon_append:
  "CHR '':'' \<notin> set a \<Longrightarrow> split_colon (a @ CHR '':'' # b) = a # split_colon b"
  by (induction a) auto

lemma clearKeys_well_formed:
  "CHR '':'' \<notin> set keyId \<Longrightarrow> CHR '':'' \<notin> set key \<Longrightarrow>
   clearKeys (split_colon (keyId @ CHR '':'' # key)) = [(keyId, Some key)]"
  by (simp add: split_colon_append split_colon_no_colon clearKeys_def)

text \<open>The first piece of a split is the text before the first colon.\<close>

lemma split_colon_first:
  "\<exists>rest. split_colon k = takeWhile (\<lambda>c. c \<noteq> CHR '':'') k # rest"
  by (induction k) auto

lemma clearKeys_first_colon:
  assumes "CHR '':'' \<notin> set keyId"
  shows "clearKeys (split_colon (keyId @ CHR '':'' # key)) =
           [(keyId, Some (takeWhile (\<lambda>c. c \<noteq> CHR '':'') key))]"
proof -
  obtain rest where "split_colon key = takeWhile (\<lambda>c. c \<noteq> CHR '':'') key # rest"
    using split_colon_first by blast
  with assms show ?thesis
    by (simp add: split_colon_append clearKeys_def)
qed

lemma spec_split_first_colon_append:
  "CHR '':'' \<notin> set keyId \<Longrightarrow>
   spec_split_first_colon (keyId @ CHR '':'' # key) = Some (keyId, key)"
  by (induction keyId) auto

lemma applyDrm_run:
  "drmKey ch = Some k \<Longrightarrow> k \<noteq> [] \<Longrightarrow>
   run_alone (applyDrm E ch p s) =
     (if throws E (trace s @ [ConsoleLog [''Configuring DRM with key:'', k]])
           (Configure p (DrmConfig (clearKeys (split_colon k)) drm_retryParameters))
      then Inl (EngineError
                 (Configure p (DrmConfig (clearKeys (split_colon k)) drm_retryParameters)))
      else Inr (),
      s\<lparr>trace := trace s @ [ConsoleLog [''Configuring DRM with key:'', k],
            Call (Configure p (DrmConfig (clearKeys (split_colon k)) drm_retryParameters))]\<rparr>)"
  by (simp add: applyDrm_def run_alone_simps)

lemma applyDrm_skip:
  "drmKey ch = None \<or> drmKey ch = Some [] \<Longrightarrow> run_alone (applyDrm E ch p s) = (Inr (), s)"
  by (auto simp add: applyDrm_def run_alone_simps)

section \<open>Load\<close>

lemma loadChannel_run:
  "run_alone (loadChannel E ch p s) =
     (Inr (),
      if throws E (trace s @ [ConsoleLog [''Loading URL:'', url ch]]) (Load p (url ch))
      then s\<lparr>trace := trace s @ [ConsoleLog [''Loading URL:'', url ch], Call (Load p (url ch)),
                 ConsoleError ''Error loading video:'' (EngineError (Load p (url ch)))]\<rparr>
      else (case videoRef s of
              Some v \<Rightarrow>
                s\<lparr>trace := trace s @ [ConsoleLog [''Loading URL:'', url ch],
                       Call (Load p (url ch)), ConsoleLog [''Video loaded successfully'']],
                  videoRef := Some (play v), isPlaying := True\<rparr>
            | None \<Rightarrow>
                s\<lparr>trace := trace s @ [ConsoleLog [''Loading URL:'', url ch],
                       Call (Load p (url ch)), ConsoleLog [''Video loaded successfully'']]\<rparr>))"
  by (simp add: loadChannel_def run_alone_simps split: option.splits)

text \<open>Whatever the engine does, \<open>initPlayer\<close> returns normally.\<close>

lemma initPlayer_no_exception: "fst (run_alone (initPlayer E ch s)) = Inr ()"
  by (simp add: initPlayer_def new_Player_def run_alone_simps loadChannel_run
        split: prod.splits sum.splits)

text \<open>Without a video surface \<open>initPlayer\<close> returns at line 48: nothing is loaded.\<close>

lemma initPlayer_without_surface:
  "videoRef s = None \<Longrightarrow> run_alone (initPlayer E ch s) = (Inr (), s)"
  by (simp add: initPlayer_def run_alone_simps)

section \<open>The claims about DRM keys\<close>

text \<open>
  C2, as the specification states it, fails. With an engine that never throws and the key
  \<open>abc123\<close>, which has no colon, \<open>initPlayer\<close> returns normally, nothing is written to
  the error console, the engine is configured with the clear key \<open>abc123\<close> mapped to
  \<open>undefined\<close>, and the load goes ahead.
\<close>

theorem no_colon_key_configured_silently:
  "fst (run_alone (initPlayer cooperative channel_nocolon (init_state (Some video0)))) = Inr ()
   \<and> trace (snd (run_alone (initPlayer cooperative channel_nocolon (init_state (Some video0))))) =
     [Call InstallAll, Call IsBrowserSupported,
      Call (NewPlayer 0),
      Call (Configure 0 player_config),
      Call (AddEventListener 0 ''error''),
      ConsoleLog [''Configuring DRM with key:'', ''abc123''],
      Call (Configure 0 (DrmConfig [(''abc123'', None)] drm_retryParameters)),
      ConsoleLog [''Loading URL:'', ''https://example/n.mpd''],
      Call (Load 0 ''https://example/n.mpd''),
      ConsoleLog [''Video loaded successfully'']]"
  by (simp add: exec_simps run_alone_simps channel_nocolon_def clearKeys_def)

text \<open>
  C2, amended. For a key string with no colon, applying DRM raises no error of its own. The
  empty string skips DRM configuration. A non-empty string \<open>k\<close> is logged and handed to the
  engine as the clear key \<open>k\<close> mapped to \<open>undefined\<close>; the only error that can come out is
  one thrown by that \<open>configure\<close> call of the engine.
\<close>

theorem applyDrm_no_colon:
  assumes "drmKey ch = Some k" and "CHR '':'' \<notin> set k"
  shows "run_alone (applyDrm E ch p s) =
     (if k = [] then (Inr (), s)
      else
       (if throws E (trace s @ [ConsoleLog [''Configuring DRM with key:'', k]])
             (Configure p (DrmConfig [(k, None)] drm_retryParameters))
        then Inl (EngineError (Configure p (DrmConfig [(k, None)] drm_retryParameters)))
        else Inr (),
        s\<lparr>trace := trace s @ [ConsoleLog [''Configuring DRM with key:'', k],
              Call (Configure p (DrmConfig [(k, None)] drm_retryParameters))]\<rparr>))"
proof (cases "k = []")
  case True
  with assms show ?thesis by (simp add: applyDrm_skip)
next
  case False
  from assms(2) have "clearKeys (split_colon k) = [(k, None)]"
    by (simp add: split_colon_no_colon clearKeys_def)
  with assms(1) False show ?thesis by (simp add: applyDrm_run)
qed

theorem applyDrm_no_colon_witness:
  "run_alone (applyDrm cooperative channel_nocolon 0 (init_state (Some video0))) =
     (Inr (),
      (init_state (Some video0))\<lparr>trace :=
         [ConsoleLog [''Configuring DRM with key:'', ''abc123''],
          Call (Configure 0 (DrmConfig [(''abc123'', None)] drm_retryParameters))]\<rparr>)"
  using applyDrm_no_colon [of channel_nocolon "''abc123''" cooperative 0 "init_state (Some video0)"]
  by (simp add: channel_nocolon_def cooperative_def init_state_def)

text \<open>
  C6, as the specification states it, fails in its general part. The key \<open>a:b:c\<close> splits
  at its first colon into \<open>a\<close> and \<open>b:c\<close>, but \<open>initPlayer\<close> configures the engine with the
  clear key \<open>a\<close> mapped to \<open>b\<close>: line 88 splits at every colon and keeps the first two
  pieces.
\<close>

theorem second_colon_cuts_key:
  "spec_split_first_colon ''a:b:c'' = Some (''a'', ''b:c'')
   \<and> trace (snd (run_alone (initPlayer cooperative channel_abc (init_state (Some video0))))) =
     [Call InstallAll, Call IsBrowserSupported,
      Call (NewPlayer 0),
      Call (Configure 0 player_config),
      Call (AddEventListener 0 ''error''),
      ConsoleLog [''Configuring DRM with key:'', ''a:b:c''],
      Call (Configure 0 (DrmConfig [(''a'', Some ''b'')] drm_retryParameters)),
      ConsoleLog [''Loading URL:'', ''https://example/c.mpd''],
      Call (Load 0 ''https://example/c.mpd''),
      ConsoleLog [''Video loaded successfully'']]"
  by (simp add: exec_simps run_alone_simps channel_abc_def clearKeys_def)

text \<open>
  C6, amended. Take a key that splits at its first colon into \<open>keyId\<close> and \<open>key\<close>. With a
  video surface bound and an engine that is present, supports the browser and does not
  throw, \<open>initPlayer\<close> makes exactly the calls below, in this order: the \<open>configure\<close> call
  comes before the \<open>load\<close> of the channel's URL, and it is awaited in between. Its
  \<open>clearKeys\<close> maps \<open>keyId\<close> to the part of \<open>key\<close> before the next colon, which is all of
  \<open>key\<close> when \<open>key\<close> holds no colon.
\<close>

theorem initPlayer_drm_before_load:
  assumes surface: "videoRef s = Some v"
      and engine: "shaka_loaded E" "browser_supported E" "\<And>tr c. \<not> throws E tr c"
      and key: "drmKey ch = Some (keyId @ CHR '':'' # key)" "CHR '':'' \<notin> set keyId"
  shows "spec_split_first_colon (keyId @ CHR '':'' # key) = Some (keyId, key)
     \<and> trace (snd (run_alone (initPlayer E ch s))) =
       trace s @ [Call InstallAll, Call IsBrowserSupported]
         @ (case shakaPlayerRef s of None \<Rightarrow> [] | Some old \<Rightarrow> [Call (Destroy old)])
         @ [Call (NewPlayer (constructed s)),
            Call (Configure (constructed s) player_config),
            Call (AddEventListener (constructed s) ''error''),
            ConsoleLog [''Configuring DRM with key:'', keyId @ CHR '':'' # key],
            Call (Configure (constructed s)
                   (DrmConfig [(keyId, Some (takeWhile (\<lambda>c. c \<noteq> CHR '':'') key))]
                      drm_retryParameters)),
            ConsoleLog [''Loading URL:'', url ch],
            Call (Load (constructed s) (url ch)),
            ConsoleLog [''Video loaded successfully'']]
     \<and> (CHR '':'' \<notin> set key \<longrightarrow> takeWhile (\<lambda>c. c \<noteq> CHR '':'') key = key)"
proof (intro conjI)
  from key(2) show "spec_split_first_colon (keyId @ CHR '':'' # key) = Some (keyId, key)"
    by (rule spec_split_first_colon_append)
next
  show "CHR '':'' \<notin> set key \<longrightarrow> takeWhile (\<lambda>c. c \<noteq> CHR '':'') key = key"
    by (auto simp add: takeWhile_eq_all_conv)
next
  have k: "keyId @ CHR '':'' # key \<noteq> []" by simp
  show "trace (snd (run_alone (initPlayer E ch s))) =
       trace s @ [Call InstallAll, Call IsBrowserSupported]
         @ (case shakaPlayerRef s of None \<Rightarrow> [] | Some old \<Rightarrow> [Call (Destroy old)])
         @ [Call (NewPlayer (constructed s)),
            Call (Configure (constructed s) player_config),
            Call (AddEventListener (constructed s) ''error''),
            ConsoleLog [''Configuring DRM with key:'', keyId @ CHR '':'' # key],
            Call (Configure (constructed s)
                   (DrmConfig [(keyId, Some (takeWhile (\<lambda>c. c \<noteq> CHR '':'') key))]
                      drm_retryParameters)),
            ConsoleLog [''Loading URL:'', url ch],
            Call (Load (constructed s) (url ch)),
            ConsoleLog [''Video loaded successfully'']]"
  proof (cases "shakaPlayerRef s")
    case None
    with surface engine key(1) show ?thesis
      by (simp add: initPlayer_def new_Player_def run_alone_simps loadChannel_run
            applyDrm_run [OF key(1) k] clearKeys_first_colon [OF key(2)]
            destroyPlayer_idle)
  next
    case (Some old)
    with surface engine key(1) show ?thesis
      by (simp add: initPlayer_def new_Player_def run_alone_simps loadChannel_run
            applyDrm_run [OF key(1) k] clearKeys_first_colon [OF key(2)]
            destroyPlayer_run)
  qed
qed

theorem initPlayer_drm_before_load_witness:
  "spec_split_first_colon ''k1:v1'' = Some (''k1'', ''v1'')
   \<and> trace (snd (run_alone (initPlayer cooperative channel_k1v1 (init_state (Some video0))))) =
     [Call InstallAll, Call IsBrowserSupported,
      Call (NewPlayer 0),
      Call (Configure 0 player_config),
      Call (AddEventListener 0 ''error''),
      ConsoleLog [''Configuring DRM with key:'', ''k1:v1''],
      Call (Configure 0 (DrmConfig [(''k1'', Some ''v1'')] drm_retryParameters)),
      ConsoleLog [''Loading URL:'', ''https://example/manifest.mpd''],
      Call (Load 0 ''https://example/manifest.mpd''),
      ConsoleLog [''Video loaded successfully'']]"
  using initPlayer_drm_before_load
          [of "init_state (Some video0)" video0 cooperative channel_k1v1 "''k1''" "''v1''"]
  by (simp add: init_state_def cooperative_def channel_k1v1_def)

section \<open>The claim about loading\<close>

text \<open>
  An error caught by a handler that cannot throw does not come out, wherever the function
  is resumed in between.
\<close>

lemma never_throws_catch_step:
  "(\<And>e s. never_throws (h e s)) \<Longrightarrow> never_throws (catch_step st h)"
  by (induction st) (auto split: sum.splits)

lemma never_throws_initPlayer: "never_throws (initPlayer E ch s)"
  unfolding initPlayer_def try_catch_def
  by (rule never_throws_catch_step) (simp add: console_error_def emit_def)

lemma never_throws_destroyPlayer: "never_throws (destroyPlayer E s)"
  unfolding destroyPlayer_def try_catch_def
  by (cases "shakaPlayerRef s")
     (simp_all add: return_comp_def never_throws_catch_step console_error_def emit_def)

text \<open>The load block up to its \<open>await\<close>, and from there on in any state.\<close>

lemma loadChannel_suspended:
  "suspended_in (loadChannel E ch p s) =
     Some (s\<lparr>trace := trace s @ [ConsoleLog [''Loading URL:'', url ch],
                 Call (Load p (url ch))]\<rparr>)"
  by (simp add: loadChannel_def run_alone_simps)

lemma loadChannel_resumed:
  "resumed (loadChannel E ch p s) s' =
     Done (Inr ())
       (if throws E (trace s @ [ConsoleLog [''Loading URL:'', url ch]]) (Load p (url ch))
        then s'\<lparr>trace := trace s' @
                 [ConsoleError ''Error loading video:'' (EngineError (Load p (url ch)))]\<rparr>
        else (case videoRef s' of
                Some v \<Rightarrow>
                  s'\<lparr>trace := trace s' @ [ConsoleLog [''Video loaded successfully'']],
                     videoRef := Some (play v), isPlaying := True\<rparr>
              | None \<Rightarrow> s'\<lparr>trace := trace s' @ [ConsoleLog [''Video loaded successfully'']]\<rparr>))"
  by (simp add: loadChannel_def run_alone_simps split: option.splits)

text \<open>
  C7, as the specification states it, fails. The user pauses while the load of channel 0 is
  pending and the component is unmounted; the load then resolves. The success is logged,
  but the playing flag stays false and nothing is played: behind the guard of line 107 the
  video surface is no longer bound.
\<close>

theorem resolved_load_after_unmount:
  "trace (cur after_load_after_unmount) =
     [Call InstallAll, Call IsBrowserSupported,
      Call (NewPlayer 0), Call (Configure 0 player_config), Call (AddEventListener 0 ''error''),
      ConsoleLog [''Loading URL:'', ''https://example/0.mpd''],
      Call (Load 0 ''https://example/0.mpd''),
      Call (Destroy 0),
      ConsoleLog [''Video loaded successfully'']]
   \<and> \<not> isPlaying (cur after_load_after_unmount)
   \<and> videoRef (cur after_load_after_unmount) = None"
  by (simp add: after_load_after_unmount_def load_after_unmount_def exec_simps
        togglePlay_def rerender_def pause_def)

text \<open>
  C7, amended. No exception comes out of \<open>initPlayer\<close>, the caller of the load, however it
  is interleaved. The load block logs the URL, calls the engine's \<open>load\<close> once and waits.
  When it is resumed, in whatever state the component is by then, it returns normally
  without another call to the engine. If the load rejected, the error is written to the
  console and nothing else changes. If it resolved, the success is logged and, provided the
  video surface is still bound, the video element is playing and the playing flag is set;
  with the surface no longer bound nothing else changes.
\<close>

theorem load_outcomes:
  "never_throws (initPlayer E ch s0)
   \<and> suspended_in (loadChannel E ch player s) =
       Some (s\<lparr>trace := trace s @ [ConsoleLog [''Loading URL:'', url ch],
                   Call (Load player (url ch))]\<rparr>)
   \<and> resumed (loadChannel E ch player s) s' =
       Done (Inr ())
         (if throws E (trace s @ [ConsoleLog [''Loading URL:'', url ch]]) (Load player (url ch))
          then s'\<lparr>trace := trace s' @
                   [ConsoleError ''Error loading video:'' (EngineError (Load player (url ch)))]\<rparr>
          else (case videoRef s' of
                  Some v \<Rightarrow>
                    s'\<lparr>trace := trace s' @ [ConsoleLog [''Video loaded successfully'']],
                       videoRef := Some (play v), isPlaying := True\<rparr>
                | None \<Rightarrow>
                    s'\<lparr>trace := trace s' @ [ConsoleLog [''Video loaded successfully'']]\<rparr>))"
  by (simp only: never_throws_initPlayer loadChannel_suspended loadChannel_resumed simp_thms)

theorem load_outcomes_witness:
  "suspended_in (loadChannel load_rejects channelA 0 with_session) = Some load_pending
   \<and> resumed (loadChannel load_rejects channelA 0 with_session) load_pending =
     Done (Inr ())
       (load_pending\<lparr>trace := trace load_pending @
          [ConsoleError ''Error loading video:'' (EngineError (Load 0 ''https://example/a.mpd''))]\<rparr>)
   \<and> resumed (loadChannel cooperative channelA 0 with_session) load_pending =
     Done (Inr ())
       (load_pending\<lparr>trace := trace load_pending @ [ConsoleLog [''Video loaded successfully'']],
          videoRef := Some (video0\<lparr>el_paused := False\<rparr>), isPlaying := True\<rparr>)
   \<and> resumed (loadChannel cooperative channelA 0 with_session) (load_pending\<lparr>videoRef := None\<rparr>) =
     Done (Inr ())
       (load_pending\<lparr>trace := trace load_pending @ [ConsoleLog [''Video loaded successfully'']],
          videoRef := None\<rparr>)"
  using load_outcomes [of load_rejects channelA with_session 0 with_session load_pending]
        load_outcomes [of cooperative channelA with_session 0 with_session load_pending]
        load_outcomes [of cooperative channelA with_session 0 with_session
                         "load_pending\<lparr>videoRef := None\<rparr>"]
  by (simp add: load_pending_def with_session_def init_state_def load_rejects_def
        cooperative_def channelA_def play_def)

section \<open>The claims about volume, mute and play\<close>

text \<open>
  The asynchronous functions of the lifecycle never touch the volume or the muted flag, and
  they never bind or unbind the video surface; the volume effect and the handlers keep the
  muted flag in step with the volume. So every state the mounted component reaches is in
  step. The video element of lines 168 to 172 is rendered unconditionally, so the component
  is mounted with \<open>videoRef\<close> bound.
\<close>

lemma same_ui_refl: "same_ui s s"
  by (simp add: same_ui_def)

lemma same_ui_trans: "same_ui s s' \<Longrightarrow> same_ui s' s'' \<Longrightarrow> same_ui s s''"
  by (simp add: same_ui_def)

lemma frames_from: "same_ui s s' \<Longrightarrow> frames st s' \<Longrightarrow> frames st s"
  by (cases st) (auto intro: same_ui_trans)

lemma frames_bind_step:
  "frames st s \<Longrightarrow> (\<And>a s1. frames (f a s1) s1) \<Longrightarrow> frames (bind_step st f) s"
  by (induction st arbitrary: s) (auto split: sum.splits intro: frames_from)

lemma frames_catch_step:
  "frames st s \<Longrightarrow> (\<And>e s1. frames (h e s1) s1) \<Longrightarrow> frames (catch_step st h) s"
  by (induction st arbitrary: s) (auto split: sum.splits intro: frames_from)

lemma frames_settle: "frames st s \<Longrightarrow> frames (settle st) s"
  by (induction st arbitrary: s) (auto intro: same_ui_refl)

lemma frames_bind_comp:
  "(\<And>s. frames (m s) s) \<Longrightarrow> (\<And>a s. frames (f a s) s) \<Longrightarrow> frames (bind_comp m f s) s"
  by (simp add: bind_comp_def frames_bind_step)

lemma frames_seq_comp:
  "(\<And>s. frames (m s) s) \<Longrightarrow> (\<And>s. frames (n s) s) \<Longrightarrow> frames (seq_comp m n s) s"
  by (simp add: seq_comp_def frames_bind_comp)

lemma frames_try_catch:
  "(\<And>s. frames (m s) s) \<Longrightarrow> (\<And>e s. frames (h e s) s) \<Longrightarrow> frames (try_catch m h s) s"
  by (simp add: try_catch_def frames_catch_step)

lemma frames_await: "(\<And>s. frames (m s) s) \<Longrightarrow> frames (await m s) s"
  by (simp add: await_def frames_settle)

lemma frames_prims:
  "frames (emit ev s) s" "frames (console_log args s) s" "frames (console_error msg e s) s"
  "frames (engine E c s) s" "frames (set_shakaPlayerRef r s) s" "frames (return_comp x s) s"
  "frames (throw_comp e s) s"
  by (simp_all add: emit_def console_log_def console_error_def engine_def set_shakaPlayerRef_def
        return_comp_def throw_comp_def same_ui_def)

lemma frames_destroyPlayer: "frames (destroyPlayer E s) s"
  by (auto simp add: destroyPlayer_def split: option.splits
        intro!: frames_try_catch frames_seq_comp frames_await frames_prims)

lemma frames_new_Player: "frames (new_Player E s) s"
  by (simp add: new_Player_def bind_comp_def engine_def same_ui_def)

lemma frames_applyDrm: "frames (applyDrm E ch p s) s"
  by (auto simp add: applyDrm_def split: option.splits
        intro!: frames_seq_comp frames_await frames_prims)

lemma frames_loadChannel: "frames (loadChannel E ch p s) s"
  unfolding loadChannel_def
  by (intro frames_seq_comp frames_try_catch frames_await frames_prims)
     (simp add: same_ui_def split: option.splits)

lemma frames_initPlayer: "frames (initPlayer E ch s) s"
  unfolding initPlayer_def
  apply (rule frames_try_catch)
   apply (auto intro!: frames_seq_comp frames_bind_comp frames_await frames_prims frames_destroyPlayer
       frames_new_Player frames_applyDrm frames_loadChannel)
  done

lemma frames_initNewChannel: "frames (initNewChannel E ch s) s"
  unfolding initNewChannel_def
  by (intro frames_seq_comp frames_await frames_destroyPlayer frames_initPlayer)


lemma in_sync_same_ui: "in_sync s \<Longrightarrow> same_ui s s' \<Longrightarrow> in_sync s'"
  by (auto simp add: in_sync_def same_ui_def)

lemma sys_ok_step:
  assumes "in_sync s" and "frames st s" and "\<forall>k \<in> set ks. \<forall>s. frames (k s) s"
  shows "sys_ok (case st of Done r s' \<Rightarrow> \<lparr>cur = s', tasks = ks, script_channel = c\<rparr>
                 | Yield s' k \<Rightarrow> \<lparr>cur = s', tasks = ks @ [k], script_channel = c\<rparr>)"
  using assms by (cases st) (auto simp add: sys_ok_def intro: in_sync_same_ui)

lemma sys_ok_spawn:
  assumes "sys_ok \<sigma>" and "\<And>s. frames (m s) s"
  shows "sys_ok (spawn m \<sigma>)"
proof -
  have "spawn m \<sigma> =
      (case m (cur \<sigma>) of
         Done r s' \<Rightarrow> \<lparr>cur = s', tasks = tasks \<sigma>, script_channel = script_channel \<sigma>\<rparr>
       | Yield s' k \<Rightarrow> \<lparr>cur = s', tasks = tasks \<sigma> @ [k], script_channel = script_channel \<sigma>\<rparr>)"
    by (cases \<sigma>) (simp add: spawn_def split: step.splits)
  moreover from assms(1) have "in_sync (cur \<sigma>)" and "\<forall>k \<in> set (tasks \<sigma>). \<forall>s. frames (k s) s"
    by (simp_all add: sys_ok_def)
  ultimately show ?thesis
    using sys_ok_step [of "cur \<sigma>" "m (cur \<sigma>)" "tasks \<sigma>" "script_channel \<sigma>"] assms(2)
    by simp
qed

lemma sys_ok_resume:
  assumes "sys_ok \<sigma>"
  shows "sys_ok (resume i \<sigma>)"
proof (cases "i < length (tasks \<sigma>)")
  case False
  with assms show ?thesis by (simp add: resume_def)
next
  case True
  let ?rest = "take i (tasks \<sigma>) @ drop (Suc i) (tasks \<sigma>)"
  have eq: "resume i \<sigma> =
      (case (tasks \<sigma> ! i) (cur \<sigma>) of
         Done r s' \<Rightarrow> \<lparr>cur = s', tasks = ?rest, script_channel = script_channel \<sigma>\<rparr>
       | Yield s' k \<Rightarrow> \<lparr>cur = s', tasks = ?rest @ [k], script_channel = script_channel \<sigma>\<rparr>)"
    using True by (cases \<sigma>) (simp add: resume_def split: step.splits)
  from True have "tasks \<sigma> ! i \<in> set (tasks \<sigma>)" by simp
  with assms have fr: "frames ((tasks \<sigma> ! i) (cur \<sigma>)) (cur \<sigma>)"
    by (simp add: sys_ok_def)
  have "set ?rest \<subseteq> set (tasks \<sigma>)"
    using set_take_subset set_drop_subset by fastforce
  with assms have rest: "\<forall>k \<in> set ?rest. \<forall>s. frames (k s) s"
    by (auto simp add: sys_ok_def)
  from assms have "in_sync (cur \<sigma>)" by (simp add: sys_ok_def)
  from sys_ok_step [OF this fr rest] eq show ?thesis by simp
qed

lemma in_sync_volume_effect: "in_sync (volume_effect s)"
  by (auto simp add: in_sync_def volume_effect_def split: option.splits)

lemma in_sync_handlers:
  assumes "in_sync s"
  shows "in_sync (onValueChange x s)" and "in_sync (toggleMute s)" and "in_sync (togglePlay s)"
proof -
  show "in_sync (onValueChange x s)"
  proof (cases "videoRef s")
    case None
    then show ?thesis
      by (simp add: in_sync_def onValueChange_def rerender_def volume_effect_def)
  next
    case (Some v)
    with assms show ?thesis
      by (simp add: in_sync_def onValueChange_def rerender_def volume_effect_def)
  qed
  show "in_sync (toggleMute s)"
  proof (cases "videoRef s")
    case None
    then show ?thesis by (simp add: in_sync_def toggleMute_def)
  next
    case (Some v)
    with assms show ?thesis
      by (simp add: in_sync_def toggleMute_def rerender_def volume_effect_def)
  qed
  show "in_sync (togglePlay s)"
  proof (cases "videoRef s")
    case None
    then show ?thesis by (simp add: in_sync_def togglePlay_def)
  next
    case (Some v)
    with assms show ?thesis
      by (simp add: in_sync_def togglePlay_def rerender_def volume_effect_def)
  qed
qed

lemma sys_ok_cur:
  "sys_ok \<sigma> \<Longrightarrow> in_sync s \<Longrightarrow> sys_ok (\<sigma>\<lparr>cur := s\<rparr>)"
  by (simp add: sys_ok_def)

lemma sys_ok_react: "sys_ok \<sigma> \<Longrightarrow> sys_ok (react E \<sigma> a)"
proof (cases a)
  case (ChannelChange ch)
  assume "sys_ok \<sigma>"
  then show ?thesis
    by (simp add: ChannelChange sys_ok_spawn frames_destroyPlayer frames_initNewChannel)
next
  case ScriptLoaded
  assume "sys_ok \<sigma>"
  then show ?thesis by (simp add: ScriptLoaded sys_ok_spawn frames_initPlayer)
next
  case Unmount
  assume "sys_ok \<sigma>"
  then have "sys_ok (\<sigma>\<lparr>cur := (cur \<sigma>)\<lparr>videoRef := None\<rparr>\<rparr>)"
    by (simp add: sys_ok_cur in_sync_def)
  then show ?thesis by (simp add: Unmount sys_ok_spawn frames_destroyPlayer)
next
  case (Resume i)
  assume "sys_ok \<sigma>"
  then show ?thesis by (simp add: Resume sys_ok_resume)
next
  case TogglePlay
  assume "sys_ok \<sigma>"
  then show ?thesis by (simp add: TogglePlay sys_ok_def in_sync_handlers)
next
  case ToggleMute
  assume "sys_ok \<sigma>"
  then show ?thesis by (simp add: ToggleMute sys_ok_def in_sync_handlers)
next
  case (SliderChange x)
  assume "sys_ok \<sigma>"
  then show ?thesis by (simp add: SliderChange sys_ok_def in_sync_handlers)
next
  case MouseEnter
  assume "sys_ok \<sigma>"
  then show ?thesis by (simp add: MouseEnter sys_ok_def in_sync_def)
next
  case MouseLeave
  assume "sys_ok \<sigma>"
  then show ?thesis by (simp add: MouseLeave sys_ok_def in_sync_def)
qed

lemma sys_ok_run: "sys_ok \<sigma> \<Longrightarrow> sys_ok (run E \<sigma> acts)"
  unfolding run_def by (induction acts arbitrary: \<sigma>) (simp_all add: sys_ok_react)

lemma sys_ok_mount: "sys_ok (mount E ch v)"
  unfolding mount_def
  by (rule sys_ok_spawn) (simp_all add: sys_ok_def in_sync_volume_effect frames_initNewChannel)

lemma reachable_in_sync: "in_sync (cur (run E (mount E ch v) acts))"
  using sys_ok_run [OF sys_ok_mount] by (simp add: sys_ok_def)

text \<open>
  The video surface stays bound until the component is unmounted: no asynchronous function
  and no handler unbinds it.
\<close>

lemma bound_step:
  assumes "videoRef s \<noteq> None" and "frames st s"
  shows "videoRef (cur (case st of
            Done r s' \<Rightarrow> \<lparr>cur = s', tasks = ks, script_channel = c\<rparr>
          | Yield s' k \<Rightarrow> \<lparr>cur = s', tasks = ks @ [k], script_channel = c\<rparr>)) \<noteq> None"
  using assms by (cases st) (auto simp add: same_ui_def)

lemma bound_spawn:
  assumes "videoRef (cur \<sigma>) \<noteq> None" and "\<And>s. frames (m s) s"
  shows "videoRef (cur (spawn m \<sigma>)) \<noteq> None"
proof -
  from assms(2) have "frames (m (cur \<sigma>)) (cur \<sigma>)" .
  with assms(1) show ?thesis
    by (cases "m (cur \<sigma>)") (auto simp add: spawn_def same_ui_def)
qed

lemma bound_resume:
  assumes "videoRef (cur \<sigma>) \<noteq> None" and "sys_ok \<sigma>"
  shows "videoRef (cur (resume i \<sigma>)) \<noteq> None"
proof (cases "i < length (tasks \<sigma>)")
  case False
  with assms(1) show ?thesis by (simp add: resume_def)
next
  case True
  then have "tasks \<sigma> ! i \<in> set (tasks \<sigma>)" by simp
  with assms(2) have "frames ((tasks \<sigma> ! i) (cur \<sigma>)) (cur \<sigma>)"
    by (simp add: sys_ok_def)
  with assms(1) True show ?thesis
    by (cases "(tasks \<sigma> ! i) (cur \<sigma>)") (auto simp add: resume_def same_ui_def)
qed

lemma bound_handlers:
  assumes "videoRef s \<noteq> None"
  shows "videoRef (onValueChange x s) \<noteq> None" and "videoRef (toggleMute s) \<noteq> None"
    and "videoRef (togglePlay s) \<noteq> None"
proof -
  from assms obtain el where el: "videoRef s = Some el" by auto
  from el show "videoRef (onValueChange x s) \<noteq> None"
    by (simp add: onValueChange_def rerender_def volume_effect_def)
  from el show "videoRef (toggleMute s) \<noteq> None"
    by (simp add: toggleMute_def rerender_def volume_effect_def)
  from el show "videoRef (togglePlay s) \<noteq> None"
    by (simp add: togglePlay_def rerender_def volume_effect_def)
qed

lemma bound_react:
  assumes "videoRef (cur \<sigma>) \<noteq> None" and "sys_ok \<sigma>" and "a \<noteq> Unmount"
  shows "videoRef (cur (react E \<sigma> a)) \<noteq> None"
proof (cases a)
  case (ChannelChange ch)
  from assms(1) have "videoRef (cur (spawn (destroyPlayer E) \<sigma>)) \<noteq> None"
    by (simp add: bound_spawn frames_destroyPlayer)
  then show ?thesis
    by (simp add: ChannelChange bound_spawn frames_initNewChannel)
next
  case ScriptLoaded
  with assms(1) show ?thesis by (simp add: bound_spawn frames_initPlayer)
next
  case Unmount
  with assms(3) show ?thesis by simp
next
  case (Resume i)
  with assms(1,2) show ?thesis by (simp add: bound_resume)
next
  case TogglePlay
  with assms(1) show ?thesis by (simp add: bound_handlers)
next
  case ToggleMute
  with assms(1) show ?thesis by (simp add: bound_handlers)
next
  case (SliderChange x)
  from bound_handlers(1) [OF assms(1)] assms(1) show ?thesis
    by (simp only: SliderChange react.simps) (simp split: if_splits)
next
  case MouseEnter
  with assms(1) show ?thesis by simp
next
  case MouseLeave
  with assms(1) show ?thesis by simp
qed

lemma bound_run:
  "videoRef (cur \<sigma>) \<noteq> None \<Longrightarrow> sys_ok \<sigma> \<Longrightarrow> Unmount \<notin> set acts \<Longrightarrow>
   videoRef (cur (run E \<sigma> acts)) \<noteq> None \<and> sys_ok (run E \<sigma> acts)"
proof (induction acts arbitrary: \<sigma>)
  case Nil
  then show ?case by (simp add: run_def)
next
  case (Cons a acts)
  from Cons.prems have a: "a \<noteq> Unmount" and rest: "Unmount \<notin> set acts" by auto
  from Cons.prems(1,2) a have "videoRef (cur (react E \<sigma> a)) \<noteq> None"
    by (rule bound_react)
  moreover from Cons.prems(2) have "sys_ok (react E \<sigma> a)"
    by (rule sys_ok_react)
  ultimately have "videoRef (cur (run E (react E \<sigma> a) acts)) \<noteq> None
      \<and> sys_ok (run E (react E \<sigma> a) acts)"
    using rest by (rule Cons.IH)
  then show ?case by (simp add: run_def)
qed

lemma bound_mount: "videoRef (cur (mount E ch (Some el))) \<noteq> None"
  unfolding mount_def
  by (rule bound_spawn) (simp_all add: volume_effect_def init_state_def frames_initNewChannel)

lemma mounted_bound_in_sync:
  assumes "Unmount \<notin> set acts"
  shows "videoRef (cur (run E (mount E ch (Some el)) acts)) \<noteq> None"
    and "in_sync (cur (run E (mount E ch (Some el)) acts))"
  using bound_run [OF bound_mount sys_ok_mount assms] by (simp_all add: sys_ok_def)

text \<open>
  C5. The component is mounted on its video element, and anything may have happened to it
  since short of unmounting: channel changes, the script's load, resumptions of suspended
  functions in any order, clicks and slider moves, with an engine that behaves in any way.
  In the state reached, moving the slider to 0 sets the volume to 0 and the muted flag;
  toggling mute while unmuted does the same; and toggling mute while muted sets the volume
  to exactly 1, whatever it was before muting, and clears the muted flag.
\<close>

theorem volume_zero_mutes:
  assumes "\<sigma> = run E (mount E ch (Some el)) acts" and "Unmount \<notin> set acts"
  shows "volume (cur (react E \<sigma> (SliderChange 0))) = 0
     \<and> isMuted (cur (react E \<sigma> (SliderChange 0)))
     \<and> (\<not> isMuted (cur \<sigma>) \<longrightarrow>
          volume (cur (react E \<sigma> ToggleMute)) = 0 \<and> isMuted (cur (react E \<sigma> ToggleMute)))
     \<and> (isMuted (cur \<sigma>) \<longrightarrow>
          volume (cur (react E \<sigma> ToggleMute)) = 1 \<and> \<not> isMuted (cur (react E \<sigma> ToggleMute)))"
proof -
  from assms obtain v where v: "videoRef (cur \<sigma>) = Some v"
    using mounted_bound_in_sync(1) [of acts E ch el] by auto
  from assms have "in_sync (cur \<sigma>)"
    by (simp add: mounted_bound_in_sync(2))
  with v have "isMuted (cur \<sigma>) \<longleftrightarrow> volume (cur \<sigma>) = 0" by (simp add: in_sync_def)
  with v show ?thesis
    by (simp add: onValueChange_def toggleMute_def rerender_def volume_effect_def)
qed

theorem volume_zero_mutes_witness:
  "isMuted (cur (run cooperative (mount cooperative channel0 (Some video0)) [SliderChange 40, ToggleMute]))
   \<and> volume (cur (run cooperative (mount cooperative channel0 (Some video0)) [SliderChange 40])) = 2 / 5
   \<and> volume (cur (run cooperative (mount cooperative channel0 (Some video0)) [SliderChange 40, ToggleMute, ToggleMute])) = 1
   \<and> isMuted (cur (run cooperative (mount cooperative channel0 (Some video0)) [SliderChange 40, SliderChange 0]))"
  using volume_zero_mutes [of "run cooperative (mount cooperative channel0 (Some video0)) [SliderChange 40, ToggleMute]"
          cooperative channel0 video0 "[SliderChange 40, ToggleMute]"]
        volume_zero_mutes [of "run cooperative (mount cooperative channel0 (Some video0)) [SliderChange 40]"
          cooperative channel0 video0 "[SliderChange 40]"]
  by (simp add: exec_simps onValueChange_def toggleMute_def rerender_def)

text \<open>
  C10. With no video surface bound, \<open>togglePlay\<close> and \<open>toggleMute\<close> return at their first
  line: the state after them, and so the playing flag, the muted flag and the volume, is the
  state before them.
\<close>

theorem toggles_without_surface:
  "videoRef s = None \<Longrightarrow> togglePlay s = s \<and> toggleMute s = s"
  by (simp add: togglePlay_def toggleMute_def)

theorem toggles_without_surface_witness:
  "togglePlay (init_state None) = init_state None
   \<and> toggleMute (init_state None) = init_state None"
  using toggles_without_surface [of "init_state None"]
  by (simp add: init_state_def)

section \<open>The claim about the controls overlay\<close>

text \<open>
  C9, as the specification states it, fails. Rendered with each callback prop bound to its
  own name, the overlay dispatches three callbacks; the specification's set has six, and
  \<open>onTogglePlay\<close> is not among the three.
\<close>

theorem ChannelControls_callbacks_differ:
  "set (handlers (ChannelControls (named_props ''News''))) \<noteq> set spec_overlay_callbacks"
proof
  assume eq: "set (handlers (ChannelControls (named_props ''News''))) = set spec_overlay_callbacks"
  have "''onTogglePlay'' \<in> set spec_overlay_callbacks"
    by (simp add: spec_overlay_callbacks_def)
  with eq have "''onTogglePlay'' \<in> set (handlers (ChannelControls (named_props ''News'')))"
    by simp
  then show False
    by (simp add: ChannelControls_def icon_button_def named_props_def)
qed

text \<open>
  C9, amended. The controls overlay is a function of its props alone: the only text it
  shows is the channel name, and the callbacks it dispatches are \<open>onPrevious\<close>, \<open>onNext\<close>
  and \<open>onShowChannels\<close>, in this order. It takes no playing flag, muted flag or volume.
\<close>

theorem ChannelControls_dispatch:
  "handlers (ChannelControls props) = [onPrevious props, onNext props, onShowChannels props]
   \<and> texts (ChannelControls props) = [channelName props]"
  by (simp add: ChannelControls_def icon_button_def)

section \<open>The claims about channel changes\<close>

text \<open>The two schedules, evaluated.\<close>

lemma after_quick_changes_trace:
  "trace (cur after_quick_changes) =
     [Call InstallAll, Call IsBrowserSupported,
      Call (NewPlayer 0), Call (Configure 0 player_config), Call (AddEventListener 0 ''error''),
      ConsoleLog [''Loading URL:'', ''https://example/0.mpd''],
      Call (Load 0 ''https://example/0.mpd''),
      ConsoleLog [''Video loaded successfully''],
      Call (Destroy 0), Call (Destroy 0), Call (Destroy 0), Call (Destroy 0),
      Call InstallAll, Call IsBrowserSupported,
      Call InstallAll, Call IsBrowserSupported,
      Call (NewPlayer 1), Call (Configure 1 player_config), Call (AddEventListener 1 ''error''),
      ConsoleLog [''Loading URL:'', ''https://example/a.mpd''],
      Call (Load 1 ''https://example/a.mpd''),
      Call (NewPlayer 2), Call (Configure 2 player_config), Call (AddEventListener 2 ''error''),
      ConsoleLog [''Loading URL:'', ''https://example/b.mpd''],
      Call (Load 2 ''https://example/b.mpd''),
      ConsoleLog [''Video loaded successfully''],
      ConsoleLog [''Video loaded successfully'']]"
  by (simp add: after_quick_changes_def quick_changes_def exec_simps eval_nat_numeral)

lemma after_quick_changes_settled:
  "tasks after_quick_changes = [] \<and> shakaPlayerRef (cur after_quick_changes) = Some 2"
  by (simp add: after_quick_changes_def quick_changes_def exec_simps eval_nat_numeral)

lemma after_one_change_trace:
  "trace (cur after_one_change) =
     [Call InstallAll, Call IsBrowserSupported,
      Call (NewPlayer 0), Call (Configure 0 player_config), Call (AddEventListener 0 ''error''),
      ConsoleLog [''Loading URL:'', ''https://example/0.mpd''],
      Call (Load 0 ''https://example/0.mpd''),
      ConsoleLog [''Video loaded successfully''],
      Call (Destroy 0), Call (Destroy 0),
      Call InstallAll, Call IsBrowserSupported,
      Call (NewPlayer 1), Call (Configure 1 player_config), Call (AddEventListener 1 ''error''),
      ConsoleLog [''Loading URL:'', ''https://example/a.mpd''],
      Call (Load 1 ''https://example/a.mpd''),
      ConsoleLog [''Video loaded successfully'']]
   \<and> tasks after_one_change = [] \<and> shakaPlayerRef (cur after_one_change) = Some 1"
  by (simp add: after_one_change_def one_change_def exec_simps eval_nat_numeral)

text \<open>
  One channel change left alone does destroy the old instance before the new one is
  constructed, and leaves only the new one live.
\<close>

lemma one_change_destroys_first:
  "\<not> live (before_attach (trace (cur after_one_change)) 1) 0
   \<and> live (trace (cur after_one_change)) 1 \<and> \<not> live (trace (cur after_one_change)) 0"
  by (simp add: after_one_change_trace live_def before_attach_def)

lemma after_late_changes_trace:
  "trace (cur after_late_changes) =
     [Call InstallAll, Call IsBrowserSupported,
      Call (NewPlayer 0), Call (Configure 0 player_config), Call (AddEventListener 0 ''error''),
      ConsoleLog [''Loading URL:'', ''https://example/0.mpd''],
      Call (Load 0 ''https://example/0.mpd''),
      ConsoleLog [''Video loaded successfully''],
      Call (Destroy 0), Call (Destroy 0),
      Call InstallAll, Call IsBrowserSupported,
      Call (NewPlayer 1), Call (Configure 1 player_config), Call (AddEventListener 1 ''error''),
      ConsoleLog [''Loading URL:'', ''https://example/a.mpd''],
      Call (Load 1 ''https://example/a.mpd''),
      Call (Destroy 1), Call (Destroy 1),
      ConsoleLog [''Video loaded successfully''],
      Call InstallAll, Call IsBrowserSupported,
      Call (NewPlayer 2), Call (Configure 2 player_config), Call (AddEventListener 2 ''error''),
      ConsoleLog [''Loading URL:'', ''https://example/b.mpd''],
      Call (Load 2 ''https://example/b.mpd''),
      ConsoleLog [''Video loaded successfully'']]
   \<and> tasks after_late_changes = [] \<and> shakaPlayerRef (cur after_late_changes) = Some 2"
  by (simp add: after_late_changes_def late_changes_def exec_simps eval_nat_numeral)

text \<open>
  So does a second change that arrives once the engine of the first has been constructed.
\<close>

lemma late_change_destroys_first:
  "\<not> live (before_attach (trace (cur after_late_changes)) 2) 1
   \<and> live (trace (cur after_late_changes)) 2 \<and> \<not> live (trace (cur after_late_changes)) 1"
  by (simp add: after_late_changes_trace live_def before_attach_def)

text \<open>
  C3. After the two quick channel changes have settled (no function is suspended any more),
  the session reference holds instance 2, which loaded channel B, but instance 1, which
  loaded channel A, is live as well: it was constructed on the same video element and
  \<open>destroy\<close> was never called on it.
\<close>

theorem quick_changes_leave_two_live_engines:
  "tasks after_quick_changes = []
   \<and> shakaPlayerRef (cur after_quick_changes) = Some 2
   \<and> live (trace (cur after_quick_changes)) 1
   \<and> live (trace (cur after_quick_changes)) 2
   \<and> Call (Load 1 (url channelA)) \<in> set (trace (cur after_quick_changes))
   \<and> Call (Load 2 (url channelB)) \<in> set (trace (cur after_quick_changes))"
  by (simp add: after_quick_changes_trace after_quick_changes_settled live_def
        channelA_def channelB_def)

text \<open>
  C4. In the same run, at the moment instance 2 is constructed for the change to channel B,
  instance 1 of the change to channel A is live, and no \<open>destroy\<close> of instance 1 follows
  either: the four \<open>destroy\<close> calls of the two changes all went to instance 0.
\<close>

theorem quick_changes_attach_over_live_engine:
  "Call (NewPlayer 2) \<in> set (trace (cur after_quick_changes))
   \<and> live (before_attach (trace (cur after_quick_changes)) 2) 1
   \<and> Call (Destroy 1) \<notin> set (trace (cur after_quick_changes))
   \<and> length (filter (\<lambda>e. e = Call (Destroy 0)) (trace (cur after_quick_changes))) = 4"
  by (simp add: after_quick_changes_trace live_def before_attach_def)

end
